theory Spec2Isabelle
  imports Complex_Main
begin

section \<open>Strings and characters of the host language\<close>

text \<open>
  The formula engine is TypeScript. A string is modelled as a list of characters and a
  character by its code unit. The model covers ASCII text: \<open>toUpperCase\<close> and
  \<open>toLowerCase\<close> change the letters a-z and A-Z only. Numbers that index rows and
  columns are mathematical integers, and the other numbers are exact rationals with the
  two infinities and NaN: the model does not round to binary64 and has no negative zero.
\<close>

definition charCode :: "char \<Rightarrow> nat" where
  "charCode c = of_char c"

definition fromCharCode :: "int \<Rightarrow> char" where
  "fromCharCode n = char_of (nat n)"

definition isUpperAZ :: "char \<Rightarrow> bool" where
  "isUpperAZ c = (65 \<le> charCode c \<and> charCode c \<le> 90)"

definition isLowerAZ :: "char \<Rightarrow> bool" where
  "isLowerAZ c = (97 \<le> charCode c \<and> charCode c \<le> 122)"

definition isDigit :: "char \<Rightarrow> bool" where
  "isDigit c = (48 \<le> charCode c \<and> charCode c \<le> 57)"

text \<open>Line terminators are what the regular expression atom \<open>.\<close> refuses.\<close>

definition isLineTerminator :: "char \<Rightarrow> bool" where
  "isLineTerminator c = (charCode c = 10 \<or> charCode c = 13)"

definition isDot :: "char \<Rightarrow> bool" where
  "isDot c = (\<not> isLineTerminator c)"

text \<open>White space as \<open>trim\<close> and the regular expression class \<open>\s\<close> see it.\<close>

definition isWhiteSpace :: "char \<Rightarrow> bool" where
  "isWhiteSpace c = (charCode c \<in> {9, 10, 11, 12, 13, 32, 160})"

definition toUpperChar :: "char \<Rightarrow> char" where
  "toUpperChar c = (if isLowerAZ c then char_of (charCode c - 32) else c)"

definition toLowerChar :: "char \<Rightarrow> char" where
  "toLowerChar c = (if isUpperAZ c then char_of (charCode c + 32) else c)"

definition toUpperCase :: "string \<Rightarrow> string" where
  "toUpperCase s = map toUpperChar s"

definition toLowerCase :: "string \<Rightarrow> string" where
  "toLowerCase s = map toLowerChar s"

definition trimStart :: "string \<Rightarrow> string" where
  "trimStart s = dropWhile isWhiteSpace s"

definition trim :: "string \<Rightarrow> string" where
  "trim s = rev (dropWhile isWhiteSpace (rev (dropWhile isWhiteSpace s)))"

definition startsWith :: "string \<Rightarrow> string \<Rightarrow> bool" where
  "startsWith s p = (take (length p) s = p)"

definition endsWith :: "string \<Rightarrow> string \<Rightarrow> bool" where
  "endsWith s p = (length p \<le> length s \<and> drop (length s - length p) s = p)"

text \<open>\<open>s.slice(n, -1)\<close>: from index \<open>n\<close> up to, not including, the last character.\<close>

definition sliceToLast :: "nat \<Rightarrow> string \<Rightarrow> string" where
  "sliceToLast n s = drop n (take (length s - 1) s)"

text \<open>\<open>s.split(sep)\<close> for a separator of one character; the result is never empty.\<close>

fun splitOn :: "char \<Rightarrow> string \<Rightarrow> string list" where
  "splitOn sep [] = [[]]"
| "splitOn sep (x # xs) =
     (if x = sep then [] # splitOn sep xs
      else (case splitOn sep xs of
              [] \<Rightarrow> [[x]]
            | p # ps \<Rightarrow> (x # p) # ps))"

text \<open>Reading an array at an index: outside the array the host yields \<open>undefined\<close>.\<close>

definition nthOpt :: "'a list \<Rightarrow> int \<Rightarrow> 'a option" where
  "nthOpt xs i = (if 0 \<le> i \<and> i < int (length xs) then Some (xs ! nat i) else None)"

definition isQuote :: "char \<Rightarrow> bool" where
  "isQuote c = (c = CHR 0x22 \<or> c = CHR 0x27)"

text \<open>\<open>s.replace(/^["']|["']$/g, '')\<close>: one leading and one trailing quote are removed.\<close>

definition stripQuotes :: "string \<Rightarrow> string" where
  "stripQuotes s =
     (let s1 = (case s of [] \<Rightarrow> [] | x # xs \<Rightarrow> if isQuote x then xs else s)
      in if s1 \<noteq> [] \<and> isQuote (last s1) then butlast s1 else s1)"

fun digitsOf :: "nat \<Rightarrow> string" where
  "digitsOf n =
     (if n < 10 then [char_of (48 + n)]
      else digitsOf (n div 10) @ [char_of (48 + n mod 10)])"

declare digitsOf.simps [simp del]

text \<open>An integer inside a template literal, and \<open>toString\<close> of an integer.\<close>

definition intToString :: "int \<Rightarrow> string" where
  "intToString n = (if n < 0 then CHR ''-'' # digitsOf (nat (- n)) else digitsOf (nat n))"

text \<open>The value of a string of decimal digits, as \<open>parseInt\<close> reads what \<open>\d+\<close> matched.\<close>

definition digitsValue :: "string \<Rightarrow> int" where
  "digitsValue s = foldl (\<lambda>acc ch. acc * 10 + (int (charCode ch) - 48)) 0 s"

section \<open>Regular expressions of the engine\<close>

text \<open>
  Every regular expression of the engine is a sequence of literal characters and of
  greedy repetitions of one character class, some of them capturing. The matcher
  backtracks as the host does: a repetition takes the longest run first and gives
  characters back one by one until the rest of the pattern matches.
\<close>

datatype item = Lit char | Rep bool nat "char \<Rightarrow> bool"

fun firstSome :: "('a \<Rightarrow> 'b option) \<Rightarrow> 'a list \<Rightarrow> 'b option" where
  "firstSome f [] = None"
| "firstSome f (x # xs) = (case f x of Some y \<Rightarrow> Some y | None \<Rightarrow> firstSome f xs)"

fun matchHere :: "item list \<Rightarrow> bool \<Rightarrow> string \<Rightarrow> string list option" where
  "matchHere [] toEnd s = (if toEnd \<and> s \<noteq> [] then None else Some [])"
| "matchHere (Lit c # its) toEnd s =
     (case s of
        [] \<Rightarrow> None
      | x # xs \<Rightarrow> if x = c then matchHere its toEnd xs else None)"
| "matchHere (Rep cap mn cls # its) toEnd s =
     firstSome
       (\<lambda>n. case matchHere its toEnd (drop n s) of
               None \<Rightarrow> None
             | Some caps \<Rightarrow> Some (if cap then take n s # caps else caps))
       (rev [mn ..< Suc (length (takeWhile cls s))])"

declare matchHere.simps [simp del]

text \<open>A pattern with no \<open>^\<close>: the leftmost position where it matches.\<close>

definition searchMatch :: "item list \<Rightarrow> string \<Rightarrow> string list option" where
  "searchMatch its s =
     firstSome (\<lambda>i. matchHere its False (drop i s)) [0 ..< Suc (length s)]"

definition lits :: "string \<Rightarrow> item list" where
  "lits s = map Lit s"

text \<open>\<open>/^([A-Z]+)(\d+)$/\<close>\<close>

definition cellRefPattern :: "item list" where
  "cellRefPattern = [Rep True 1 isUpperAZ, Rep True 1 isDigit]"

section \<open>Reference resolver\<close>

record CellRef =
  col :: int
  row :: int

definition columnNumber :: "string \<Rightarrow> int" where
  "columnNumber colStr = foldl (\<lambda>acc ch. acc * 26 + (int (charCode ch) - 64)) 0 colStr"

definition parseCellReference :: "string \<Rightarrow> CellRef option" where
  "parseCellReference ref =
     (case matchHere cellRefPattern True ref of
        Some [colStr, rowStr] \<Rightarrow>
          Some \<lparr> col = columnNumber colStr - 1, row = digitsValue rowStr - 1 \<rparr>
      | _ \<Rightarrow> None)"

text \<open>The loop that builds a column label inside \<open>parseRange\<close>.\<close>

function colLabelLoop :: "int \<Rightarrow> string \<Rightarrow> string" where
  "colLabelLoop num colLabel =
     (if num \<ge> 0
      then colLabelLoop (num div 26 - 1) (fromCharCode (65 + num mod 26) # colLabel)
      else colLabel)"
  by pat_completeness auto
termination
  by (relation "measure (\<lambda>(num, colLabel). nat (num + 1))") auto

declare colLabelLoop.simps [simp del]

definition formatColumnLabel :: "int \<Rightarrow> string" where
  "formatColumnLabel c = colLabelLoop c []"

text \<open>The key pushed for a column and a row: the label followed by the row plus one.\<close>

definition cellKey :: "int \<Rightarrow> int \<Rightarrow> string" where
  "cellKey c r = formatColumnLabel c @ intToString (r + 1)"

function colLoop :: "int \<Rightarrow> int \<Rightarrow> int \<Rightarrow> string list \<Rightarrow> string list" where
  "colLoop c endCol r cells =
     (if c \<le> endCol
      then colLoop (c + 1) endCol r (cells @ [cellKey c r])
      else cells)"
  by pat_completeness auto
termination
  by (relation "measure (\<lambda>(c, endCol, r, cells). nat (endCol + 1 - c))") auto

declare colLoop.simps [simp del]

function rowLoop :: "int \<Rightarrow> int \<Rightarrow> int \<Rightarrow> int \<Rightarrow> string list \<Rightarrow> string list" where
  "rowLoop r endRow startCol endCol cells =
     (if r \<le> endRow
      then rowLoop (r + 1) endRow startCol endCol (colLoop startCol endCol r cells)
      else cells)"
  by pat_completeness auto
termination
  by (relation "measure (\<lambda>(r, endRow, startCol, endCol, cells). nat (endRow + 1 - r))") auto

declare rowLoop.simps [simp del]

definition parseRange :: "string \<Rightarrow> string list" where
  "parseRange rangeStr =
     (let parts = splitOn CHR '':'' rangeStr
      in case (nthOpt parts 0, nthOpt parts 1) of
           (Some startStr, Some endStr) \<Rightarrow>
             if startStr = [] \<or> endStr = [] then []
             else (case (parseCellReference startStr, parseCellReference endStr) of
                     (Some startRef, Some endRef) \<Rightarrow>
                       rowLoop (row startRef) (row endRef) (col startRef) (col endRef) []
                   | _ \<Rightarrow> [])
         | _ \<Rightarrow> [])"

section \<open>Numbers of the host language\<close>

datatype number = NaN | Fin rat | PosInfinity | NegInfinity

datatype jsError = RangeError | SyntaxError | TypeError | ReferenceError

text \<open>
  What the host language supplies and the model leaves open: \<open>eval\<close> followed by
  \<open>toString\<close> of its result (either may throw), \<open>toString\<close> of a number that is not
  an integer below \<open>10^21\<close>, and the digits \<open>toFixed\<close> writes.
\<close>

record Host =
  evalToString :: "string \<Rightarrow> jsError + string"
  fractionToString :: "rat \<Rightarrow> string"
  fixedDigits :: "rat \<Rightarrow> nat \<Rightarrow> string"

text \<open>
  The ambient state a call can read: what \<open>new Date().toLocaleDateString()\<close> and
  \<open>new Date().toLocaleString()\<close> yield at the moment of the call.
\<close>

record Clock =
  localeDate :: string
  localeDateTime :: string

definition scale10 :: "rat \<Rightarrow> int \<Rightarrow> rat" where
  "scale10 m e = (if e \<ge> 0 then m * 10 ^ nat e else m / 10 ^ nat (- e))"

text \<open>The sign that may start a numeric literal.\<close>

definition readSign :: "string \<Rightarrow> bool \<times> string" where
  "readSign s =
     (case s of
        [] \<Rightarrow> (False, [])
      | c # r \<Rightarrow> if c = CHR ''-'' then (True, r)
                 else if c = CHR ''+'' then (False, r)
                 else (False, s))"

text \<open>An exponent part \<open>e\<close>, sign, digits; without digits there is no exponent part.\<close>

definition exponentPart :: "string \<Rightarrow> int" where
  "exponentPart s =
     (case s of
        [] \<Rightarrow> 0
      | c # r \<Rightarrow>
          if c = CHR ''e'' \<or> c = CHR ''E''
          then (let (neg, r1) = readSign r; ds = takeWhile isDigit r1
                in if ds = [] then 0
                   else if neg then - digitsValue ds else digitsValue ds)
          else 0)"

text \<open>
  \<open>parseFloat\<close>: leading white space is skipped and the longest prefix that is a decimal
  literal is read; when there is none the result is NaN.
\<close>

definition parseFloat :: "string \<Rightarrow> number" where
  "parseFloat s =
     (let (neg, u) = readSign (trimStart s)
      in if startsWith u ''Infinity'' then (if neg then NegInfinity else PosInfinity)
         else
           (let intDigits = takeWhile isDigit u;
                r1 = dropWhile isDigit u;
                hasPoint = (r1 \<noteq> [] \<and> hd r1 = CHR ''.'');
                fracDigits = (if hasPoint then takeWhile isDigit (tl r1) else []);
                r2 = (if hasPoint then dropWhile isDigit (tl r1) else r1)
            in if intDigits = [] \<and> fracDigits = [] then NaN
               else
                 (let m = scale10 (of_int (digitsValue (intDigits @ fracDigits)))
                            (exponentPart r2 - int (length fracDigits))
                  in Fin (if neg then - m else m))))"

definition isHexDigit :: "char \<Rightarrow> bool" where
  "isHexDigit c = (isDigit c \<or> (65 \<le> charCode c \<and> charCode c \<le> 70)
                   \<or> (97 \<le> charCode c \<and> charCode c \<le> 102))"

definition hexDigitValue :: "char \<Rightarrow> int" where
  "hexDigitValue c =
     (if isDigit c then int (charCode c) - 48
      else if charCode c \<le> 70 then int (charCode c) - 55
      else int (charCode c) - 87)"

definition hexValue :: "string \<Rightarrow> int" where
  "hexValue s = foldl (\<lambda>acc ch. acc * 16 + hexDigitValue ch) 0 s"

text \<open>\<open>parseInt\<close> with no radix; \<open>None\<close> is NaN.\<close>

definition parseInt :: "string \<Rightarrow> int option" where
  "parseInt s =
     (let (neg, u) = readSign (trimStart s)
      in if startsWith u ''0x'' \<or> startsWith u ''0X''
         then (let ds = takeWhile isHexDigit (drop 2 u)
               in if ds = [] then None
                  else Some (if neg then - hexValue ds else hexValue ds))
         else (let ds = takeWhile isDigit u
               in if ds = [] then None
                  else Some (if neg then - digitsValue ds else digitsValue ds)))"

fun numAdd :: "number \<Rightarrow> number \<Rightarrow> number" where
  "numAdd NaN y = NaN"
| "numAdd x NaN = NaN"
| "numAdd (Fin a) (Fin b) = Fin (a + b)"
| "numAdd PosInfinity NegInfinity = NaN"
| "numAdd NegInfinity PosInfinity = NaN"
| "numAdd PosInfinity y = PosInfinity"
| "numAdd NegInfinity y = NegInfinity"
| "numAdd (Fin a) y = y"

text \<open>Division of a number by the length of an array.\<close>

fun numDivLength :: "number \<Rightarrow> nat \<Rightarrow> number" where
  "numDivLength NaN n = NaN"
| "numDivLength (Fin a) n =
     (if n = 0 then (if a = 0 then NaN else if a > 0 then PosInfinity else NegInfinity)
      else Fin (a / of_nat n))"
| "numDivLength PosInfinity n = PosInfinity"
| "numDivLength NegInfinity n = NegInfinity"

fun numLess :: "number \<Rightarrow> number \<Rightarrow> bool" where
  "numLess NaN y = False"
| "numLess x NaN = False"
| "numLess (Fin a) (Fin b) = (a < b)"
| "numLess x NegInfinity = False"
| "numLess NegInfinity y = True"
| "numLess PosInfinity y = False"
| "numLess (Fin a) PosInfinity = True"

text \<open>Strict equality of numbers: NaN equals nothing.\<close>

definition numEq :: "number \<Rightarrow> number \<Rightarrow> bool" where
  "numEq x y = (x \<noteq> NaN \<and> y \<noteq> NaN \<and> x = y)"

definition numLessEq :: "number \<Rightarrow> number \<Rightarrow> bool" where
  "numLessEq x y = (numLess x y \<or> numEq x y)"

definition numMin :: "number \<Rightarrow> number \<Rightarrow> number" where
  "numMin a b = (if a = NaN \<or> b = NaN then NaN else if numLess b a then b else a)"

definition numMax :: "number \<Rightarrow> number \<Rightarrow> number" where
  "numMax a b = (if a = NaN \<or> b = NaN then NaN else if numLess a b then b else a)"

definition mathMin :: "number list \<Rightarrow> number" where
  "mathMin values = foldl numMin PosInfinity values"

definition mathMax :: "number list \<Rightarrow> number" where
  "mathMax values = foldl numMax NegInfinity values"

definition numberToString :: "Host \<Rightarrow> number \<Rightarrow> string" where
  "numberToString h x =
     (case x of
        NaN \<Rightarrow> ''NaN''
      | PosInfinity \<Rightarrow> ''Infinity''
      | NegInfinity \<Rightarrow> ''-Infinity''
      | Fin q \<Rightarrow>
          if of_int \<lfloor>q\<rfloor> = q \<and> \<bar>q\<bar> < 10 ^ 21 then intToString \<lfloor>q\<rfloor>
          else fractionToString h q)"

text \<open>\<open>toFixed\<close> throws a RangeError unless the digit count is between 0 and 100.\<close>

definition toFixed :: "Host \<Rightarrow> number \<Rightarrow> int \<Rightarrow> jsError + string" where
  "toFixed h x decimals =
     (if decimals < 0 \<or> decimals > 100 then Inl RangeError
      else (case x of
              Fin q \<Rightarrow> if \<bar>q\<bar> < 10 ^ 21 then Inr (fixedDigits h q (nat decimals))
                       else Inr (numberToString h x)
            | _ \<Rightarrow> Inr (numberToString h x)))"

section \<open>Cell store\<close>

record CellData =
  value' :: string
  formula :: "string option"
  displayValue :: "string option"

type_synonym cells = "string \<rightharpoonup> CellData"

text \<open>\<open>cellData.displayValue || cellData.value\<close>: an empty display value is falsy.\<close>

definition displayOrValue :: "CellData \<Rightarrow> string" where
  "displayOrValue cellData =
     (case displayValue cellData of
        None \<Rightarrow> value' cellData
      | Some d \<Rightarrow> if d = [] then value' cellData else d)"

definition getCellValue :: "string \<Rightarrow> cells \<Rightarrow> number" where
  "getCellValue cellId cells =
     (case cells cellId of
        None \<Rightarrow> Fin 0
      | Some cellData \<Rightarrow>
          (let num = parseFloat (displayOrValue cellData)
           in if num = NaN then Fin 0 else num))"

definition getCellText :: "string \<Rightarrow> cells \<Rightarrow> string" where
  "getCellText cellId cells =
     (case cells cellId of
        None \<Rightarrow> []
      | Some cellData \<Rightarrow> displayOrValue cellData)"

text \<open>
  \<open>getCellText\<close> on an array element: where the index is outside the array the
  element is \<open>undefined\<close>, which is no key of the store.
\<close>

definition getCellTextAt :: "string option \<Rightarrow> cells \<Rightarrow> string" where
  "getCellTextAt cellId cells =
     (case cellId of None \<Rightarrow> [] | Some k \<Rightarrow> getCellText k cells)"

section \<open>Formula evaluator\<close>

text \<open>\<open>/^IF\((.+),(.+),(.+)\)$/\<close>\<close>

definition ifPattern :: "item list" where
  "ifPattern = lits ''IF('' @
     [Rep True 1 isDot, Lit CHR '','', Rep True 1 isDot, Lit CHR '','', Rep True 1 isDot,
      Lit CHR '')'']"

definition isUpperOrDigit :: "char \<Rightarrow> bool" where
  "isUpperOrDigit c = (isUpperAZ c \<or> isDigit c)"

definition isCompareChar :: "char \<Rightarrow> bool" where
  "isCompareChar c = (c = CHR ''>'' \<or> c = CHR ''<'' \<or> c = CHR ''='' \<or> c = CHR ''!'')"

text \<open>\<open>/([A-Z0-9]+)\s*([><=!]+)\s*(.+)/\<close>\<close>

definition comparePattern :: "item list" where
  "comparePattern =
     [Rep True 1 isUpperOrDigit, Rep False 0 isWhiteSpace, Rep True 1 isCompareChar,
      Rep False 0 isWhiteSpace, Rep True 1 isDot]"

definition isRangeChar :: "char \<Rightarrow> bool" where
  "isRangeChar c = (isUpperAZ c \<or> isDigit c \<or> c = CHR '':'')"

text \<open>\<open>/^VLOOKUP\((.+),([A-Z0-9:]+),(\d+),(.+)\)$/\<close>\<close>

definition vlookupPattern :: "item list" where
  "vlookupPattern = lits ''VLOOKUP('' @
     [Rep True 1 isDot, Lit CHR '','', Rep True 1 isRangeChar, Lit CHR '','',
      Rep True 1 isDigit, Lit CHR '','', Rep True 1 isDot, Lit CHR '')'']"

text \<open>The sum that \<open>reduce\<close> computes over the cells of a range.\<close>

definition sumCells :: "string list \<Rightarrow> cells \<Rightarrow> number" where
  "sumCells cellIds cells =
     foldl (\<lambda>acc cellId. numAdd acc (getCellValue cellId cells)) (Fin 0) cellIds"

definition evalSum :: "Host \<Rightarrow> string \<Rightarrow> cells \<Rightarrow> string" where
  "evalSum h expression cells =
     (let cellIds = parseRange (sliceToLast 4 expression)
      in numberToString h (sumCells cellIds cells))"

definition evalAverage :: "Host \<Rightarrow> string \<Rightarrow> cells \<Rightarrow> string" where
  "evalAverage h expression cells =
     (let cellIds = parseRange (sliceToLast 8 expression)
      in if length cellIds = 0 then ''0''
         else numberToString h (numDivLength (sumCells cellIds cells) (length cellIds)))"

definition evalMin :: "Host \<Rightarrow> string \<Rightarrow> cells \<Rightarrow> string" where
  "evalMin h expression cells =
     (let cellIds = parseRange (sliceToLast 4 expression)
      in if length cellIds = 0 then ''0''
         else numberToString h (mathMin (map (\<lambda>cellId. getCellValue cellId cells) cellIds)))"

definition evalMax :: "Host \<Rightarrow> string \<Rightarrow> cells \<Rightarrow> string" where
  "evalMax h expression cells =
     (let cellIds = parseRange (sliceToLast 4 expression)
      in if length cellIds = 0 then ''0''
         else numberToString h (mathMax (map (\<lambda>cellId. getCellValue cellId cells) cellIds)))"

definition evalCount :: "string \<Rightarrow> cells \<Rightarrow> string" where
  "evalCount expression cells =
     (let cellIds = parseRange (sliceToLast 6 expression)
      in intToString (int (length (filter
           (\<lambda>cellId. let v = getCellText cellId cells in v \<noteq> [] \<and> parseFloat v \<noteq> NaN)
           cellIds))))"

definition evalCountA :: "string \<Rightarrow> cells \<Rightarrow> string" where
  "evalCountA expression cells =
     (let cellIds = parseRange (sliceToLast 7 expression)
      in intToString (int (length (filter (\<lambda>cellId. getCellText cellId cells \<noteq> []) cellIds))))"

definition evalRound :: "Host \<Rightarrow> string \<Rightarrow> jsError + string" where
  "evalRound h expression =
     (let args = splitOn CHR '','' (sliceToLast 6 expression)
      in if length args \<noteq> 2 then Inr ''#VALUE!''
         else (case (parseFloat (args ! 0), parseInt (args ! 1)) of
                 (NaN, _) \<Rightarrow> Inr ''#VALUE!''
               | (_, None) \<Rightarrow> Inr ''#VALUE!''
               | (v, Some decimals) \<Rightarrow> toFixed h v decimals))"

text \<open>An argument of a text function: the text of a cell, or a literal without its quotes.\<close>

definition textArgument :: "string \<Rightarrow> cells \<Rightarrow> string" where
  "textArgument arg cells =
     (case parseCellReference arg of
        Some cellRef \<Rightarrow> getCellText arg cells
      | None \<Rightarrow> stripQuotes arg)"

definition evalConcat :: "string \<Rightarrow> cells \<Rightarrow> string" where
  "evalConcat expression cells =
     (let args = splitOn CHR '','' (sliceToLast 7 expression)
      in concat (map (\<lambda>arg. textArgument (trim arg) cells) args))"

definition evalLen :: "string \<Rightarrow> cells \<Rightarrow> string" where
  "evalLen expression cells =
     intToString (int (length (textArgument (trim (sliceToLast 4 expression)) cells)))"

definition evalUpper :: "string \<Rightarrow> cells \<Rightarrow> string" where
  "evalUpper expression cells =
     toUpperCase (textArgument (trim (sliceToLast 6 expression)) cells)"

definition evalLower :: "string \<Rightarrow> cells \<Rightarrow> string" where
  "evalLower expression cells =
     toLowerCase (textArgument (trim (sliceToLast 6 expression)) cells)"

text \<open>The \<open>switch\<close> on the operator; an operator it does not list leaves the result false.\<close>

definition compareBy :: "string \<Rightarrow> number \<Rightarrow> number \<Rightarrow> bool" where
  "compareBy operator cellValue compareValue =
     (if operator = ''>'' then numLess compareValue cellValue
      else if operator = ''<'' then numLess cellValue compareValue
      else if operator = ''>='' then numLessEq compareValue cellValue
      else if operator = ''<='' then numLessEq cellValue compareValue
      else if operator = ''=='' \<or> operator = ''='' then numEq cellValue compareValue
      else if operator = ''!='' then \<not> numEq cellValue compareValue
      else False)"

text \<open>The IF function: \<open>None\<close> when the code falls through to the next pattern.\<close>

definition evalIf :: "string \<Rightarrow> cells \<Rightarrow> string option" where
  "evalIf expression cells =
     (case matchHere ifPattern True expression of
        Some [g1, g2, g3] \<Rightarrow>
          (let condition = trim g1; trueValue = trim g2; falseValue = trim g3
           in case searchMatch comparePattern condition of
                Some [cellRef, operator, rhs] \<Rightarrow>
                  (let compareValue = parseFloat rhs;
                       cellValue = getCellValue cellRef cells;
                       result = compareBy operator cellValue compareValue
                   in Some (if result then stripQuotes trueValue else stripQuotes falseValue))
              | _ \<Rightarrow> None)
      | _ \<Rightarrow> None)"

function vlookupLoop ::
  "int \<Rightarrow> int \<Rightarrow> int \<Rightarrow> int \<Rightarrow> string list \<Rightarrow> string \<Rightarrow> cells \<Rightarrow> string" where
  "vlookupLoop r numRows numCols columnIndex cellIds lookupValue cells =
     (if r < numRows
      then (let firstCellId = nthOpt cellIds (r * numCols);
                cellValue = getCellTextAt firstCellId cells
            in if cellValue = lookupValue
               then (let targetCellId = nthOpt cellIds (r * numCols + columnIndex - 1)
                     in getCellTextAt targetCellId cells)
               else vlookupLoop (r + 1) numRows numCols columnIndex cellIds lookupValue cells)
      else ''#N/A'')"
  by pat_completeness auto
termination
  by (relation "measure (\<lambda>(r, numRows, numCols, columnIndex, cellIds, lookupValue, cells).
        nat (numRows - r))") auto

declare vlookupLoop.simps [simp del]

text \<open>
  \<open>parseCellReference(tableRange.split(':')[i])\<close>: on a missing part the call
  \<open>undefined.match\<close> throws a TypeError.
\<close>

definition parsePart :: "string list \<Rightarrow> int \<Rightarrow> jsError + CellRef option" where
  "parsePart parts i =
     (case nthOpt parts i of
        None \<Rightarrow> Inl TypeError
      | Some p \<Rightarrow> Inr (parseCellReference p))"

text \<open>
  The VLOOKUP function: \<open>None\<close> when the pattern does not match. Both corners are
  parsed before either is tested, and the number of rows is the floor of the quotient,
  which integer division gives for the positive number of columns of a non-empty range.
\<close>

definition evalVlookup :: "string \<Rightarrow> cells \<Rightarrow> (jsError + string) option" where
  "evalVlookup expression cells =
     (case matchHere vlookupPattern True expression of
        Some [g1, tableRange, g3, g4] \<Rightarrow>
          (let lookupValue = stripQuotes (trim g1);
               columnIndex = digitsValue g3;
               cellIds = parseRange tableRange
           in if length cellIds = 0 then Some (Inr ''#N/A'')
              else (case parsePart (splitOn CHR '':'' tableRange) 0 of
                      Inl e \<Rightarrow> Some (Inl e)
                    | Inr startRefOpt \<Rightarrow>
                        (case parsePart (splitOn CHR '':'' tableRange) 1 of
                           Inl e \<Rightarrow> Some (Inl e)
                         | Inr endRefOpt \<Rightarrow>
                             (case (startRefOpt, endRefOpt) of
                                (Some startRef, Some endRef) \<Rightarrow>
                                  (let numCols = col endRef - col startRef + 1;
                                       numRows = int (length cellIds) div numCols
                                   in Some (Inr (vlookupLoop 0 numRows numCols columnIndex
                                                   cellIds lookupValue cells)))
                              | _ \<Rightarrow> Some (Inr ''#N/A'')))))
      | _ \<Rightarrow> None)"

text \<open>\<open>expression.replace(/[^0-9+\-*/().]/g, '')\<close>\<close>

definition sanitize :: "string \<Rightarrow> string" where
  "sanitize expression = filter (\<lambda>c. c \<in> set ''0123456789+-*/().'') expression"

text \<open>
  What follows the text functions: the date functions, IF, VLOOKUP, a bare cell
  reference and the arithmetic fallback, in the order of the source.
\<close>

definition evalRest :: "Host \<Rightarrow> Clock \<Rightarrow> string \<Rightarrow> cells \<Rightarrow> jsError + string" where
  "evalRest h clock expression cells =
     (if expression = ''TODAY()'' then Inr (localeDate clock)
      else if expression = ''NOW()'' then Inr (localeDateTime clock)
      else (case evalIf expression cells of
              Some r \<Rightarrow> Inr r
            | None \<Rightarrow>
                (case evalVlookup expression cells of
                   Some r \<Rightarrow> r
                 | None \<Rightarrow>
                     (case parseCellReference expression of
                        Some cellRef \<Rightarrow> Inr (numberToString h (getCellValue expression cells))
                      | None \<Rightarrow>
                          (let sanitized = sanitize expression
                           in if sanitized \<noteq> [] then evalToString h sanitized
                              else Inr ''#NAME?'')))))"

text \<open>The body of the \<open>try\<close> block: \<open>Inl\<close> is an exception thrown inside it.\<close>

definition tryBlock :: "Host \<Rightarrow> Clock \<Rightarrow> string \<Rightarrow> cells \<Rightarrow> jsError + string" where
  "tryBlock h clock expression cells =
     (if startsWith expression ''SUM('' \<and> endsWith expression '')''
      then Inr (evalSum h expression cells)
      else if startsWith expression ''AVERAGE('' \<and> endsWith expression '')''
      then Inr (evalAverage h expression cells)
      else if startsWith expression ''MIN('' \<and> endsWith expression '')''
      then Inr (evalMin h expression cells)
      else if startsWith expression ''MAX('' \<and> endsWith expression '')''
      then Inr (evalMax h expression cells)
      else if startsWith expression ''COUNT('' \<and> endsWith expression '')''
      then Inr (evalCount expression cells)
      else if startsWith expression ''COUNTA('' \<and> endsWith expression '')''
      then Inr (evalCountA expression cells)
      else if startsWith expression ''ROUND('' \<and> endsWith expression '')''
      then evalRound h expression
      else if startsWith expression ''CONCAT('' \<and> endsWith expression '')''
      then Inr (evalConcat expression cells)
      else if startsWith expression ''LEN('' \<and> endsWith expression '')''
      then Inr (evalLen expression cells)
      else if startsWith expression ''UPPER('' \<and> endsWith expression '')''
      then Inr (evalUpper expression cells)
      else if startsWith expression ''LOWER('' \<and> endsWith expression '')''
      then Inr (evalLower expression cells)
      else evalRest h clock expression cells)"

text \<open>The expression the evaluator dispatches on.\<close>

definition expressionOf :: "string \<Rightarrow> string" where
  "expressionOf formulaStr = toUpperCase (trim (drop 1 formulaStr))"

text \<open>
  \<open>evaluateFormula\<close>: the result is the outcome of the call, \<open>Inr\<close> a returned string
  and \<open>Inl\<close> an exception that leaves the function.
\<close>

definition evaluateFormula ::
  "Host \<Rightarrow> Clock \<Rightarrow> string \<Rightarrow> string \<Rightarrow> cells \<Rightarrow> jsError + string" where
  "evaluateFormula h clock formulaStr currentCellId cells =
     (if \<not> startsWith formulaStr ''='' then Inr formulaStr
      else (let expression = expressionOf formulaStr
            in case tryBlock h clock expression cells of
                 Inr s \<Rightarrow> Inr s
               | Inl error \<Rightarrow> Inr ''#ERROR!''))"

section \<open>The pattern of a reference, as the specification words it\<close>

text \<open>
  A string has the shape \<open>^[A-Z]+[0-9]+$\<close> when it splits into a non-empty run of
  capital letters followed by a non-empty run of digits.
\<close>

definition refSyntax :: "string \<Rightarrow> bool" where
  "refSyntax s =
     (\<exists>n \<in> {1 ..< length s}. list_all isUpperAZ (take n s) \<and> list_all isDigit (drop n s))"


section \<open>Sample inputs\<close>

definition plainCell :: "string \<Rightarrow> CellData" where
  "plainCell v = \<lparr> value' = v, formula = None, displayValue = None \<rparr>"

text \<open>A host whose \<open>eval\<close> throws on every text.\<close>

definition refusingHost :: Host where
  "refusingHost =
     \<lparr> evalToString = (\<lambda>s. Inl SyntaxError),
       fractionToString = (\<lambda>q. ''?''),
       fixedDigits = (\<lambda>q n. ''?'') \<rparr>"

definition newYear :: Clock where
  "newYear = \<lparr> localeDate = ''1/1/2026'', localeDateTime = ''1/1/2026, 12:00:00 AM'' \<rparr>"

definition nextDay :: Clock where
  "nextDay = \<lparr> localeDate = ''1/2/2026'', localeDateTime = ''1/2/2026, 12:00:00 AM'' \<rparr>"



definition tenStore :: cells where
  "tenStore = [''A1'' \<mapsto> plainCell ''10'']"



section \<open>Facts about the matcher\<close>

lemma firstSome_None: "firstSome f xs = None \<longleftrightarrow> (\<forall>x\<in>set xs. f x = None)"
  by (induction xs) (auto split: option.splits)


lemma rev_upt_Suc: "m \<le> n \<Longrightarrow> rev [m ..< Suc n] = n # rev [m ..< n]"
  by simp

lemma isUpper_not_digit: "isUpperAZ c \<Longrightarrow> \<not> isDigit c"
  by (simp add: isUpperAZ_def isDigit_def)

lemma takeWhile_all: "length (takeWhile P s) = length s \<longleftrightarrow> list_all P s"
proof
  assume "length (takeWhile P s) = length s"
  then have "takeWhile P s = s"
    by (metis takeWhile_eq_take take_all order_refl)
  then show "list_all P s"
    by (metis list_all_iff set_takeWhileD)
next
  assume "list_all P s"
  then have "takeWhile P s = s"
    by (simp add: list_all_iff)
  then show "length (takeWhile P s) = length s"
    by (rule arg_cong)
qed

lemma match_digits_end:
  "matchHere [Rep True 1 isDigit] True s =
     (if s \<noteq> [] \<and> list_all isDigit s then Some [s] else None)"
proof (cases "s \<noteq> [] \<and> list_all isDigit s")
  case True
  then have tw: "length (takeWhile isDigit s) = length s"
    by (simp add: takeWhile_all)
  from True have len: "1 \<le> length s"
    by (cases s) auto
  have "rev [1 ..< Suc (length s)] = length s # rev [1 ..< length s]"
    using len by (rule rev_upt_Suc)
  then show ?thesis
    using True tw by (simp add: matchHere.simps)
next
  case False
  let ?G = "\<lambda>n. case matchHere [] True (drop n s) of
                  None \<Rightarrow> None
                | Some caps \<Rightarrow> Some (if True then take n s # caps else caps)"
  have "\<forall>n \<in> set (rev [1 ..< Suc (length (takeWhile isDigit s))]). ?G n = None"
  proof
    fix n
    assume "n \<in> set (rev [1 ..< Suc (length (takeWhile isDigit s))])"
    then have n: "1 \<le> n" "n \<le> length (takeWhile isDigit s)"
      by auto
    have le: "length (takeWhile isDigit s) \<le> length s"
      by (rule length_takeWhile_le)
    have "n < length s"
    proof (rule ccontr)
      assume "\<not> n < length s"
      with n le have eq: "length (takeWhile isDigit s) = length s"
        by linarith
      then have "list_all isDigit s"
        by (simp add: takeWhile_all)
      moreover have "s \<noteq> []"
        using n eq by auto
      ultimately show False
        using False by simp
    qed
    then have "drop n s \<noteq> []"
      by simp
    then show "?G n = None"
      by (simp add: matchHere.simps)
  qed
  then have "firstSome ?G (rev [1 ..< Suc (length (takeWhile isDigit s))]) = None"
    by (simp only: firstSome_None)
  then show ?thesis
    using False by (simp add: matchHere.simps(3) del: upt_Suc)
qed

lemma drop_in_run_not_digits:
  assumes "1 \<le> n" "n < length (takeWhile isUpperAZ s)"
  shows "\<not> (drop n s \<noteq> [] \<and> list_all isDigit (drop n s))"
proof -
  have le: "length (takeWhile isUpperAZ s) \<le> length s"
    by (rule length_takeWhile_le)
  have "takeWhile isUpperAZ s ! n = s ! n"
    using assms by (simp add: takeWhile_nth)
  moreover have "takeWhile isUpperAZ s ! n \<in> set (takeWhile isUpperAZ s)"
    using assms by simp
  ultimately have "isUpperAZ (s ! n)"
    by (metis set_takeWhileD)
  then have nd: "\<not> isDigit (s ! n)"
    by (rule isUpper_not_digit)
  have "n < length s"
    using assms le by linarith
  then have "drop n s = s ! n # drop (Suc n) s"
    by (simp add: Cons_nth_drop_Suc)
  then show ?thesis
    using nd by simp
qed

lemma match_cellRef:
  "matchHere cellRefPattern True s =
     (if takeWhile isUpperAZ s \<noteq> [] \<and> dropWhile isUpperAZ s \<noteq> []
         \<and> list_all isDigit (dropWhile isUpperAZ s)
      then Some [takeWhile isUpperAZ s, dropWhile isUpperAZ s] else None)"
proof -
  let ?L = "length (takeWhile isUpperAZ s)"
  define F where "F = (\<lambda>n. case matchHere [Rep True 1 isDigit] True (drop n s) of
                  None \<Rightarrow> None
                | Some caps \<Rightarrow> Some (if True then take n s # caps else caps))"
  have unfold: "matchHere cellRefPattern True s = firstSome F (rev [1 ..< Suc ?L])"
    by (simp add: cellRefPattern_def F_def matchHere.simps(3) del: upt_Suc)
  have F: "\<And>n. F n = (if drop n s \<noteq> [] \<and> list_all isDigit (drop n s)
                         then Some [take n s, drop n s] else None)"
    by (simp only: F_def match_digits_end) simp
  have tk: "take ?L s = takeWhile isUpperAZ s"
    by (rule takeWhile_eq_take [symmetric])
  have dr: "drop ?L s = dropWhile isUpperAZ s"
    by (rule dropWhile_eq_drop [symmetric])
  show ?thesis
  proof (cases "?L = 0")
    case True
    then show ?thesis
      using unfold by simp
  next
    case False
    then have one: "1 \<le> ?L"
      by linarith
    then have cands: "rev [1 ..< Suc ?L] = ?L # rev [1 ..< ?L]"
      by (rule rev_upt_Suc)
    have ne: "takeWhile isUpperAZ s \<noteq> []"
      using False by simp
    show ?thesis
    proof (cases "dropWhile isUpperAZ s \<noteq> [] \<and> list_all isDigit (dropWhile isUpperAZ s)")
      case True
      then have "F ?L = Some [takeWhile isUpperAZ s, dropWhile isUpperAZ s]"
        using F [of ?L] tk dr by simp
      then have "firstSome F (?L # rev [1 ..< ?L])
                   = Some [takeWhile isUpperAZ s, dropWhile isUpperAZ s]"
        by (simp only: firstSome.simps option.case)
      then show ?thesis
        using unfold cands True ne by simp
    next
      case False
      have "\<forall>n \<in> set (rev [1 ..< Suc ?L]). F n = None"
      proof
        fix n
        assume "n \<in> set (rev [1 ..< Suc ?L])"
        then have n: "1 \<le> n" "n \<le> ?L"
          by auto
        show "F n = None"
        proof (cases "n = ?L")
          case True
          then show ?thesis
            using F [of ?L] dr False by simp
        next
          case False
          then have "n < ?L"
            using n by simp
          then have "\<not> (drop n s \<noteq> [] \<and> list_all isDigit (drop n s))"
            using n by (intro drop_in_run_not_digits)
          then show ?thesis
            using F [of n] by simp
        qed
      qed
      then have "firstSome F (rev [1 ..< Suc ?L]) = None"
        by (simp only: firstSome_None)
      then show ?thesis
        using unfold False by simp
    qed
  qed
qed

lemma parseCellReference_eq:
  "parseCellReference s =
     (if takeWhile isUpperAZ s \<noteq> [] \<and> dropWhile isUpperAZ s \<noteq> []
         \<and> list_all isDigit (dropWhile isUpperAZ s)
      then Some \<lparr> col = columnNumber (takeWhile isUpperAZ s) - 1,
                  row = digitsValue (dropWhile isUpperAZ s) - 1 \<rparr>
      else None)"
  by (simp add: parseCellReference_def match_cellRef)

lemma split_runs:
  assumes "list_all isUpperAZ xs" "list_all isDigit ys" "ys \<noteq> []"
  shows "takeWhile isUpperAZ (xs @ ys) = xs" "dropWhile isUpperAZ (xs @ ys) = ys"
proof -
  obtain y ys' where ys: "ys = y # ys'"
    using assms(3) by (cases ys) auto
  then have "isDigit y"
    using assms(2) by simp
  then have ny: "\<not> isUpperAZ y"
    using isUpper_not_digit by blast
  have all: "\<forall>x \<in> set xs. isUpperAZ x"
    using assms(1) by (simp add: list_all_iff)
  show "takeWhile isUpperAZ (xs @ ys) = xs"
    using all ny ys by (simp add: takeWhile_tail)
  show "dropWhile isUpperAZ (xs @ ys) = ys"
    using all ny ys by (simp add: dropWhile_append2)
qed

lemma refSyntax_runs:
  "refSyntax s \<longleftrightarrow>
     takeWhile isUpperAZ s \<noteq> [] \<and> dropWhile isUpperAZ s \<noteq> []
       \<and> list_all isDigit (dropWhile isUpperAZ s)"
proof
  assume "refSyntax s"
  then obtain n where n: "1 \<le> n" "n < length s"
    and up: "list_all isUpperAZ (take n s)" and dg: "list_all isDigit (drop n s)"
    by (auto simp: refSyntax_def)
  have ne: "drop n s \<noteq> []" "take n s \<noteq> []"
    using n by auto
  have "s = take n s @ drop n s"
    by simp
  then have "takeWhile isUpperAZ s = take n s" "dropWhile isUpperAZ s = drop n s"
    using split_runs [OF up dg ne(1)] by simp_all
  then show "takeWhile isUpperAZ s \<noteq> [] \<and> dropWhile isUpperAZ s \<noteq> []
       \<and> list_all isDigit (dropWhile isUpperAZ s)"
    using ne dg by simp
next
  assume a: "takeWhile isUpperAZ s \<noteq> [] \<and> dropWhile isUpperAZ s \<noteq> []
       \<and> list_all isDigit (dropWhile isUpperAZ s)"
  let ?n = "length (takeWhile isUpperAZ s)"
  have tk: "take ?n s = takeWhile isUpperAZ s"
    by (rule takeWhile_eq_take [symmetric])
  have dr: "drop ?n s = dropWhile isUpperAZ s"
    by (rule dropWhile_eq_drop [symmetric])
  have "1 \<le> ?n"
    using a by (cases "takeWhile isUpperAZ s") auto
  moreover have "?n < length s"
    using a dr by (metis drop_eq_Nil not_le_imp_less)
  moreover have "list_all isUpperAZ (take ?n s)"
    unfolding tk by (metis list_all_iff set_takeWhileD)
  moreover have "list_all isDigit (drop ?n s)"
    unfolding dr using a by simp
  ultimately show "refSyntax s"
    unfolding refSyntax_def by (intro bexI [of _ ?n]) auto
qed













lemma parseRange_nonempty:
  assumes "parseRange rangeStr \<noteq> []"
  shows "\<exists>startStr endStr a b.
           nthOpt (splitOn CHR '':'' rangeStr) 0 = Some startStr
         \<and> nthOpt (splitOn CHR '':'' rangeStr) 1 = Some endStr
         \<and> parseCellReference startStr = Some a
         \<and> parseCellReference endStr = Some b"
  using assms
  by (auto simp: parseRange_def Let_def split: option.splits if_splits)

section \<open>Claims about the reference resolver\<close>

text \<open>
  C6, as the specification states it, fails: \<open>parseCellReference\<close> does not uppercase
  its input, and the lowercase reference \<open>b2\<close> yields null.
\<close>

theorem parseCellReference_lowercase_counterexample:
  "parseCellReference ''b2'' = None"
  by code_simp

text \<open>
  C6 (amended). \<open>parseCellReference\<close> matches its input as it is given against
  \<open>^[A-Z]+[0-9]+$\<close>, with no uppercasing of its own: a string of that shape parses to the
  zero-based column of its letters and the zero-based row of its digits, and every other
  string yields null; no input makes it throw.
\<close>

theorem parseCellReference_pattern:
  "parseCellReference s =
     (if refSyntax s
      then Some \<lparr> col = columnNumber (takeWhile isUpperAZ s) - 1,
                  row = digitsValue (dropWhile isUpperAZ s) - 1 \<rparr>
      else None)"
  by (simp add: parseCellReference_eq refSyntax_runs)

theorem parseCellReference_pattern_witness:
  "refSyntax ''B2'' \<and> parseCellReference ''B2'' = Some \<lparr> col = 1, row = 1 \<rparr>
   \<and> \<not> refSyntax ''2B'' \<and> parseCellReference ''2B'' = None"
proof -
  have yes: "refSyntax ''B2''"
    by (simp add: refSyntax_def isUpperAZ_def isDigit_def charCode_def)
  have no: "\<not> refSyntax ''2B''"
    by (simp add: refSyntax_def isUpperAZ_def isDigit_def charCode_def)
  have "parseCellReference ''B2'' = Some \<lparr> col = 1, row = 1 \<rparr>"
    using parseCellReference_pattern [of "''B2''"] yes
    by (simp add: isUpperAZ_def columnNumber_def digitsValue_def charCode_def)
  moreover have "parseCellReference ''2B'' = None"
    using parseCellReference_pattern [of "''2B''"] no by simp
  ultimately show ?thesis
    using yes no by simp
qed






section \<open>Facts about numbers\<close>

text \<open>On what \<open>\d+\<close> matched, \<open>parseInt\<close> is the decimal value of the digits.\<close>

lemma parseInt_digits:
  assumes "s \<noteq> []" "list_all isDigit s"
  shows "parseInt s = Some (digitsValue s)"
proof -
  obtain d ds where s: "s = d # ds"
    using assms(1) by (cases s) auto
  have d: "48 \<le> charCode d" "charCode d \<le> 57"
    using assms(2) s by (simp_all add: isDigit_def)
  have nw: "\<not> isWhiteSpace d"
    using d by (auto simp: isWhiteSpace_def)
  have codes: "charCode CHR ''-'' = 45" "charCode CHR ''+'' = 43" "charCode CHR ''x'' = 120"
    "charCode CHR ''X'' = 88"
    by (simp_all add: charCode_def)
  have sg: "d \<noteq> CHR ''-''" "d \<noteq> CHR ''+''"
    using d codes by auto
  have tr: "trimStart s = s"
    using nw s by (simp add: trimStart_def)
  have rs: "readSign s = (False, s)"
    using sg s by (simp add: readSign_def)
  have nx: "\<not> startsWith s ''0x''" "\<not> startsWith s ''0X''"
  proof -
    have "\<not> isDigit CHR ''x''" "\<not> isDigit CHR ''X''"
      using codes by (simp_all add: isDigit_def)
    then have "ds = [] \<or> (hd ds \<noteq> CHR ''x'' \<and> hd ds \<noteq> CHR ''X'')"
      using assms(2) s by (cases ds) auto
    then show "\<not> startsWith s ''0x''" "\<not> startsWith s ''0X''"
      unfolding s by (cases ds; simp add: startsWith_def)+
  qed
  have tw: "takeWhile isDigit s = s"
    using assms(2) by (simp add: list_all_iff)
  show ?thesis
    using assms(1) by (simp add: parseInt_def tr rs nx tw)
qed

section \<open>Facts about the dispatch\<close>

lemma startsWith_append: "startsWith (p @ r) p"
  by (simp add: startsWith_def)

lemma endsWith_paren: "endsWith (p @ r @ '')'') '')''"
  by (simp add: endsWith_def)












lemma evaluateFormula_formula:
  "startsWith f ''='' \<Longrightarrow>
     evaluateFormula h clock f c cells =
       (case tryBlock h clock (expressionOf f) cells of
          Inr s \<Rightarrow> Inr s
        | Inl e \<Rightarrow> Inr ''#ERROR!'')"
  by (simp add: evaluateFormula_def)


section \<open>Claims about the evaluator as a whole\<close>



text \<open>
  C9. The current cell identifier has no influence on the result.
\<close>

theorem evaluateFormula_ignores_currentCellId:
  "evaluateFormula h clock f c1 cells = evaluateFormula h clock f c2 cells"
  by (simp add: evaluateFormula_def)

text \<open>
  C8, as the specification states it, fails: \<open>TODAY()\<close> reads the clock, so two calls
  with equal arguments made on different days return different strings.
\<close>

theorem evaluateFormula_today_counterexample:
  "evaluateFormula refusingHost newYear ''=TODAY()'' ''A1'' Map.empty
     \<noteq> evaluateFormula refusingHost nextDay ''=TODAY()'' ''A1'' Map.empty"
  by code_simp

text \<open>
  C8 (amended). A text with no leading \<open>=\<close>, and a formula whose expression is neither
  \<open>TODAY()\<close> nor \<open>NOW()\<close>, evaluates to a result that is a function of the formula and
  the store alone: the clock has no influence. The two date functions return the date
  and the date and time that the clock gives at the moment of the call.
\<close>

theorem evaluateFormula_pure_except_dates:
  "(\<not> startsWith f ''='' \<or> (expressionOf f \<noteq> ''TODAY()'' \<and> expressionOf f \<noteq> ''NOW()'') \<longrightarrow>
      evaluateFormula h clock1 f c cells = evaluateFormula h clock2 f c cells)
   \<and> (startsWith f ''='' \<and> expressionOf f = ''TODAY()'' \<longrightarrow>
        evaluateFormula h clock f c cells = Inr (localeDate clock))
   \<and> (startsWith f ''='' \<and> expressionOf f = ''NOW()'' \<longrightarrow>
        evaluateFormula h clock f c cells = Inr (localeDateTime clock))"
proof (intro conjI impI)
  assume "\<not> startsWith f ''='' \<or> (expressionOf f \<noteq> ''TODAY()'' \<and> expressionOf f \<noteq> ''NOW()'')"
  then show "evaluateFormula h clock1 f c cells = evaluateFormula h clock2 f c cells"
  proof
    assume "\<not> startsWith f ''=''"
    then show ?thesis
      by (simp add: evaluateFormula_def)
  next
    assume "expressionOf f \<noteq> ''TODAY()'' \<and> expressionOf f \<noteq> ''NOW()''"
    then have "evalRest h clock1 (expressionOf f) cells = evalRest h clock2 (expressionOf f) cells"
      by (simp add: evalRest_def)
    then have "tryBlock h clock1 (expressionOf f) cells = tryBlock h clock2 (expressionOf f) cells"
      by (simp add: tryBlock_def)
    then show ?thesis
      by (simp add: evaluateFormula_def)
  qed
next
  assume a: "startsWith f ''='' \<and> expressionOf f = ''TODAY()''"
  have "tryBlock h clock ''TODAY()'' cells = Inr (localeDate clock)"
    by (simp add: tryBlock_def evalRest_def startsWith_def)
  then show "evaluateFormula h clock f c cells = Inr (localeDate clock)"
    using a by (simp add: evaluateFormula_formula)
next
  assume a: "startsWith f ''='' \<and> expressionOf f = ''NOW()''"
  have "tryBlock h clock ''NOW()'' cells = Inr (localeDateTime clock)"
    by (simp add: tryBlock_def evalRest_def startsWith_def)
  then show "evaluateFormula h clock f c cells = Inr (localeDateTime clock)"
    using a by (simp add: evaluateFormula_formula)
qed

theorem evaluateFormula_pure_except_dates_witness:
  "expressionOf ''=sum(A1:A2)'' \<noteq> ''TODAY()'' \<and> expressionOf ''=sum(A1:A2)'' \<noteq> ''NOW()''
   \<and> evaluateFormula refusingHost newYear ''=sum(A1:A2)'' ''C1'' tenStore
       = evaluateFormula refusingHost nextDay ''=sum(A1:A2)'' ''C1'' tenStore
   \<and> startsWith ''=today()'' ''='' \<and> expressionOf ''=today()'' = ''TODAY()''
   \<and> evaluateFormula refusingHost nextDay ''=today()'' ''C1'' tenStore = Inr ''1/2/2026''
   \<and> startsWith ''=now()'' ''='' \<and> expressionOf ''=now()'' = ''NOW()''
   \<and> evaluateFormula refusingHost nextDay ''=now()'' ''C1'' tenStore
       = Inr ''1/2/2026, 12:00:00 AM''"
proof -
  have h: "expressionOf ''=sum(A1:A2)'' \<noteq> ''TODAY()''"
    "expressionOf ''=sum(A1:A2)'' \<noteq> ''NOW()''"
    "startsWith ''=today()'' ''=''" "expressionOf ''=today()'' = ''TODAY()''"
    "startsWith ''=now()'' ''=''" "expressionOf ''=now()'' = ''NOW()''"
    by code_simp+
  have d: "localeDate nextDay = ''1/2/2026''"
    "localeDateTime nextDay = ''1/2/2026, 12:00:00 AM''"
    by (simp_all add: nextDay_def)
  show ?thesis
    using evaluateFormula_pure_except_dates
            [where f = "''=sum(A1:A2)''" and h = refusingHost and ?clock1.0 = newYear
               and ?clock2.0 = nextDay and c = "''C1''" and cells = tenStore]
          evaluateFormula_pure_except_dates
            [where f = "''=today()''" and h = refusingHost and clock = nextDay
               and c = "''C1''" and cells = tenStore]
          evaluateFormula_pure_except_dates
            [where f = "''=now()''" and h = refusingHost and clock = nextDay
               and c = "''C1''" and cells = tenStore]
          h d
    by simp
qed



section \<open>Facts about IF and VLOOKUP\<close>















section \<open>Facts about the rectangle of a range\<close>







section \<open>Facts about the lookup loop\<close>











section \<open>Facts about greedy repetition\<close>









section \<open>What the IF pattern captures\<close>





lemma comma_is_dot: "isDot CHR '',''"
  by (simp add: isDot_def isLineTerminator_def charCode_def)


section \<open>What the comparison pattern captures\<close>





section \<open>What the VLOOKUP pattern captures\<close>





section \<open>Facts about the text of a formula\<close>








section \<open>Facts about the result of VLOOKUP\<close>







section \<open>The claim about IF\<close>




section \<open>The claims about VLOOKUP\<close>







end
